theory Spec2Isabelle
  imports Complex_Main "HOL-Library.Multiset"
begin

section \<open>Python values, errors and effects\<close>

text \<open>
  The program is \<^verbatim>\<open>photo_evidence.py\<close>. Its functions work on EXIF values as
  Pillow delivers them: integers, rationals, text, byte strings and tuples of these.
  Numbers are modelled as exact rationals: \<open>rat\<close> stands for Python's \<open>float\<close> and for
  Pillow's \<open>IFDRational\<close>, so binary rounding error, NaN (a rational with denominator
  zero) and infinities are outside the model. A \<open>str\<close> is a \<open>string\<close>; text beyond
  ASCII is held as its UTF-8 bytes.
\<close>

datatype pyerr =
  TypeError | ValueError | KeyError | AttributeError | OSError
| GeocoderTimedOut | GeocoderServiceError

text \<open>Every member of \<open>pyerr\<close> is a subclass of \<^verbatim>\<open>Exception\<close>, which is what the
  handlers of the program catch.\<close>

datatype pykey = Name string | Tag_id nat

datatype pyval =
  IntV int | NumV rat | StrV string | BytesV string | TupleV "pyval list"

type_synonym pydict = "(pykey \<times> pyval) list"

text \<open>A dictionary is an association list in insertion order: \<open>map_of\<close> is
  \<^verbatim>\<open>dict.get\<close>, \<open>subscript\<close> is \<^verbatim>\<open>d[k]\<close> and \<open>dict_set\<close> is \<^verbatim>\<open>d[k] = v\<close>.\<close>

definition subscript :: "pydict \<Rightarrow> pykey \<Rightarrow> pyerr + pyval" where
  "subscript d k = (case map_of d k of None \<Rightarrow> Inl KeyError | Some v \<Rightarrow> Inr v)"

fun dict_set :: "pykey \<Rightarrow> pyval \<Rightarrow> pydict \<Rightarrow> pydict" where
  "dict_set k v [] = [(k, v)]"
| "dict_set k v ((k', v') # d) = (if k' = k then (k, v) # d else (k', v') # dict_set k v d)"

fun truthy :: "pyval \<Rightarrow> bool" where
  "truthy (IntV i) = (i \<noteq> 0)"
| "truthy (NumV q) = (q \<noteq> 0)"
| "truthy (StrV s) = (s \<noteq> [])"
| "truthy (BytesV b) = (b \<noteq> [])"
| "truthy (TupleV vs) = (vs \<noteq> [])"

text \<open>The result of \<^verbatim>\<open>dict.get\<close> is \<^verbatim>\<open>None\<close> (falsy) or a value; \<open>py_or\<close> is
  Python's \<^verbatim>\<open>a or b\<close> on such results.\<close>

definition truthy_opt :: "pyval option \<Rightarrow> bool" where
  "truthy_opt a = (case a of None \<Rightarrow> False | Some v \<Rightarrow> truthy v)"

definition py_or :: "pyval option \<Rightarrow> pyval option \<Rightarrow> pyval option" where
  "py_or a b = (if truthy_opt a then a else b)"

datatype message =
  Msg_processing string | Msg_open_error | Msg_no_exif | Msg_no_date | Msg_date_error
| Msg_done | Msg_gps_error pyerr
| Msg_folder_not_found string | Msg_not_a_folder string | Msg_searching string
| Msg_no_photos | Msg_found nat | Msg_no_data | Msg_processed nat nat

datatype event = Printed message | Reverse_geocoded rat rat

text \<open>A call returns the events it caused, in order, and either the exception that
  left it (\<open>Inl\<close>) or its value (\<open>Inr\<close>).\<close>

type_synonym 'a outcome = "event list \<times> (pyerr + 'a)"

definition bind_err :: "pyerr + 'a \<Rightarrow> ('a \<Rightarrow> pyerr + 'b) \<Rightarrow> pyerr + 'b" where
  "bind_err r f = (case r of Inl e \<Rightarrow> Inl e | Inr v \<Rightarrow> f v)"

definition ret :: "'a \<Rightarrow> 'a outcome" where
  "ret v = ([], Inr v)"

definition lift :: "pyerr + 'a \<Rightarrow> 'a outcome" where
  "lift r = ([], r)"

definition say :: "message \<Rightarrow> unit outcome" where
  "say m = ([Printed m], Inr ())"

definition then_do :: "'a outcome \<Rightarrow> ('a \<Rightarrow> 'b outcome) \<Rightarrow> 'b outcome" where
  "then_do m f =
     (case m of
        (ev, Inl e) \<Rightarrow> (ev, Inl e)
      | (ev, Inr v) \<Rightarrow> (case f v of (ev', r) \<Rightarrow> (ev @ ev', r)))"

text \<open>\<^verbatim>\<open>try: m  except Exception as e: h(e)\<close>\<close>

definition try_except :: "'a outcome \<Rightarrow> (pyerr \<Rightarrow> 'a outcome) \<Rightarrow> 'a outcome" where
  "try_except m h =
     (case m of
        (ev, Inl e) \<Rightarrow> (case h e of (ev', r) \<Rightarrow> (ev @ ev', r))
      | (ev, Inr v) \<Rightarrow> (ev, Inr v))"

section \<open>The GPS normalizer: \<^verbatim>\<open>get_gps_location\<close>\<close>

text \<open>Tuple unpacking \<^verbatim>\<open>d, m, s = value\<close>: a value that cannot be iterated raises
  \<^verbatim>\<open>TypeError\<close>, one that yields another number of items than three raises
  \<^verbatim>\<open>ValueError\<close>.\<close>

fun iter_items :: "pyval \<Rightarrow> pyval list option" where
  "iter_items (TupleV vs) = Some vs"
| "iter_items (StrV s) = Some (map (\<lambda>c. StrV [c]) s)"
| "iter_items (BytesV b) = Some (map (\<lambda>c. IntV (of_char c)) b)"
| "iter_items (IntV i) = None"
| "iter_items (NumV q) = None"

definition unpack3 :: "pyval \<Rightarrow> pyerr + (pyval \<times> pyval \<times> pyval)" where
  "unpack3 v =
     (case iter_items v of
        None \<Rightarrow> Inl TypeError
      | Some [d, m, s] \<Rightarrow> Inr (d, m, s)
      | Some _ \<Rightarrow> Inl ValueError)"

fun as_number :: "pyval \<Rightarrow> rat option" where
  "as_number (IntV i) = Some (of_int i)"
| "as_number (NumV q) = Some q"
| "as_number (StrV s) = None"
| "as_number (BytesV b) = None"
| "as_number (TupleV vs) = None"

text \<open>\<^verbatim>\<open>v / c\<close> and \<^verbatim>\<open>v + x\<close> for a float \<open>c\<close>, \<open>x\<close>: only a number on the left is
  accepted.\<close>

definition truediv :: "pyval \<Rightarrow> rat \<Rightarrow> pyerr + rat" where
  "truediv v c = (case as_number v of None \<Rightarrow> Inl TypeError | Some x \<Rightarrow> Inr (x / c))"

definition add_float :: "pyval \<Rightarrow> rat \<Rightarrow> pyerr + rat" where
  "add_float v x = (case as_number v of None \<Rightarrow> Inl TypeError | Some d \<Rightarrow> Inr (d + x))"

definition convert_to_degrees :: "pyval \<Rightarrow> pyerr + rat" where
  "convert_to_degrees v =
     bind_err (unpack3 v) (\<lambda>(d, m, s).
     bind_err (truediv m 60) (\<lambda>mq.
     bind_err (add_float d mq) (\<lambda>dm.
     bind_err (truediv s 3600) (\<lambda>sq.
     Inr (dm + sq)))))"

text \<open>\<^verbatim>\<open>round(x, n)\<close>: the multiple of \<open>10\<^sup>-\<^sup>n\<close> nearest to \<open>x\<close>, a tie going to the
  even one.\<close>

definition round_half_even :: "rat \<Rightarrow> int" where
  "round_half_even y =
     (let f = \<lfloor>y\<rfloor>; r = y - of_int f
      in if r < 1 / 2 then f else if 1 / 2 < r then f + 1
         else if even f then f else f + 1)"

definition py_round :: "rat \<Rightarrow> nat \<Rightarrow> rat" where
  "py_round x n = of_int (round_half_even (x * 10 ^ n)) / 10 ^ n"

text \<open>The body of the \<^verbatim>\<open>try\<close> block, lines 40 to 48.\<close>

definition gps_body :: "pydict \<Rightarrow> pyerr + (rat \<times> rat)" where
  "gps_body gps_data =
     bind_err (subscript gps_data (Name ''GPSLatitude'')) (\<lambda>latv.
     bind_err (convert_to_degrees latv) (\<lambda>lat.
     bind_err (subscript gps_data (Name ''GPSLongitude'')) (\<lambda>lonv.
     bind_err (convert_to_degrees lonv) (\<lambda>lon.
       let lat' = (if map_of gps_data (Name ''GPSLatitudeRef'') \<noteq> Some (StrV ''N'')
                   then - lat else lat);
           lon' = (if map_of gps_data (Name ''GPSLongitudeRef'') \<noteq> Some (StrV ''E'')
                   then - lon else lon)
       in Inr (py_round lat' 6, py_round lon' 6)))))"

definition get_gps_location :: "pydict \<Rightarrow> (rat \<times> rat) option outcome" where
  "get_gps_location gps_data =
     (if gps_data = [] \<or> map_of gps_data (Name ''GPSLatitude'') = None
         \<or> map_of gps_data (Name ''GPSLongitude'') = None
      then ret None
      else try_except
             (then_do (lift (gps_body gps_data)) (\<lambda>c. ret (Some c)))
             (\<lambda>e. then_do (say (Msg_gps_error e)) (\<lambda>_. ret None)))"

section \<open>The address resolver: \<^verbatim>\<open>get_address_from_coords\<close>\<close>

text \<open>\<^verbatim>\<open>str(n)\<close> for a natural number, and the format \<^verbatim>\<open>.6f\<close>: the sign, the integer
  part, a point and six digits, the value rounded as \<^verbatim>\<open>round\<close> does.\<close>

fun dec_digits :: "nat \<Rightarrow> string" where
  "dec_digits n =
     (if n < 10 then [''0123456789'' ! n]
      else dec_digits (n div 10) @ [''0123456789'' ! (n mod 10)])"

declare dec_digits.simps [simp del]

definition zfill :: "nat \<Rightarrow> string \<Rightarrow> string" where
  "zfill w s = replicate (w - length s) (CHR ''0'') @ s"

definition format_6f :: "rat \<Rightarrow> string" where
  "format_6f x =
     (let n = round_half_even (\<bar>x\<bar> * 10 ^ 6)
      in (if x < 0 then ''-'' else [])
         @ dec_digits (nat (n div 10 ^ 6)) @ ''.''
         @ zfill 6 (dec_digits (nat (n mod 10 ^ 6))))"

text \<open>What the geocoder's \<^verbatim>\<open>reverse\<close> gives back is a \<^verbatim>\<open>Location\<close> or
  \<^verbatim>\<open>None\<close>; reading \<^verbatim>\<open>.address\<close> of \<^verbatim>\<open>None\<close> raises \<^verbatim>\<open>AttributeError\<close>.
  The geocoder is outside the program and is a parameter here.\<close>

datatype location = Location (loc_address: string)

type_synonym geocoder = "rat \<Rightarrow> rat \<Rightarrow> pyerr + location option"

definition get_attr_address :: "location option \<Rightarrow> pyerr + string" where
  "get_attr_address loc =
     (case loc of None \<Rightarrow> Inl AttributeError | Some l \<Rightarrow> Inr (loc_address l))"

definition get_address_from_coords :: "geocoder \<Rightarrow> rat \<Rightarrow> rat \<Rightarrow> string outcome" where
  "get_address_from_coords geolocator_reverse lat lon =
     try_except
       (then_do ([Reverse_geocoded lat lon], geolocator_reverse lat lon) (\<lambda>location.
        lift (get_attr_address location)))
       (\<lambda>e. ret (format_6f lat @ '', '' @ format_6f lon))"

section \<open>The record builder: \<^verbatim>\<open>extract_image_info\<close>\<close>

text \<open>
  Pillow, the clock and the file system are outside the program. An opened image is
  described by what its three methods used here do: each returns or raises. The tag
  tables, the UTF-8 decoder and \<^verbatim>\<open>strptime\<close> are parameters too.
\<close>

type_synonym pixels = "nat list"

record image =
  getexif :: "pyerr + (nat \<times> pyval) list"
  get_ifd_gps :: "pyerr + (nat \<times> pyval) list"
  copy :: "pyerr + pixels"

record 't env =
  image_open :: "string \<Rightarrow> pyerr + image"
  TAGS :: "nat \<Rightarrow> string option"
  GPSTAGS :: "nat \<Rightarrow> string option"
  decode_utf8_ignore :: "string \<Rightarrow> string"
  strptime :: "string \<Rightarrow> string \<Rightarrow> pyerr + 't"
  geolocator_reverse :: geocoder
  basename :: "string \<Rightarrow> string"
  path_exists :: "string \<Rightarrow> bool"
  path_isdir :: "string \<Rightarrow> bool"
  listdir :: "string \<Rightarrow> string list"
  path_join :: "string \<Rightarrow> string \<Rightarrow> string"

record 't photo_info =
  image_copy :: pixels
  date_taken :: 't
  address :: string
  camera_model :: pyval

text \<open>The two sentinel texts of lines 115 and 118, as UTF-8.\<close>

definition COORDS_UNAVAILABLE :: string where
  "COORDS_UNAVAILABLE =
     [CHR 0xD0, CHR 0x9A, CHR 0xD0, CHR 0xBE, CHR 0xD0, CHR 0xBE, CHR 0xD1, CHR 0x80,
      CHR 0xD0, CHR 0xB4, CHR 0xD0, CHR 0xB8, CHR 0xD0, CHR 0xBD, CHR 0xD0, CHR 0xB0,
      CHR 0xD1, CHR 0x82, CHR 0xD1, CHR 0x8B, CHR 0x20, CHR 0xD0, CHR 0xBD, CHR 0xD0,
      CHR 0xB5, CHR 0xD0, CHR 0xB4, CHR 0xD0, CHR 0xBE, CHR 0xD1, CHR 0x81, CHR 0xD1,
      CHR 0x82, CHR 0xD1, CHR 0x83, CHR 0xD0, CHR 0xBF, CHR 0xD0, CHR 0xBD, CHR 0xD1,
      CHR 0x8B]"

definition MODEL_UNKNOWN :: string where
  "MODEL_UNKNOWN =
     [CHR 0xD0, CHR 0x9C, CHR 0xD0, CHR 0xBE, CHR 0xD0, CHR 0xB4, CHR 0xD0, CHR 0xB5,
      CHR 0xD0, CHR 0xBB, CHR 0xD1, CHR 0x8C, CHR 0x20, CHR 0xD0, CHR 0xBD, CHR 0xD0,
      CHR 0xB5, CHR 0xD0, CHR 0xB8, CHR 0xD0, CHR 0xB7, CHR 0xD0, CHR 0xB2, CHR 0xD0,
      CHR 0xB5, CHR 0xD1, CHR 0x81, CHR 0xD1, CHR 0x82, CHR 0xD0, CHR 0xBD, CHR 0xD0,
      CHR 0xB0]"

definition DATE_FORMAT :: string where
  "DATE_FORMAT = ''%Y:%m:%d %H:%M:%S''"

definition tag_name :: "(nat \<Rightarrow> string option) \<Rightarrow> nat \<Rightarrow> pykey" where
  "tag_name table tag_id = (case table tag_id of None \<Rightarrow> Tag_id tag_id | Some n \<Rightarrow> Name n)"

definition decode_bytes :: "'t env \<Rightarrow> pyval \<Rightarrow> pyval" where
  "decode_bytes env v = (case v of BytesV b \<Rightarrow> StrV (decode_utf8_ignore env b) | _ \<Rightarrow> v)"

text \<open>The loop of lines 86 to 92 and the comprehension of lines 95 to 99.\<close>

definition build_exif_data :: "'t env \<Rightarrow> (nat \<times> pyval) list \<Rightarrow> pydict" where
  "build_exif_data env exif =
     fold (\<lambda>(tag_id, v) d. dict_set (tag_name (TAGS env) tag_id) (decode_bytes env v) d) exif []"

definition build_gps_data :: "'t env \<Rightarrow> image \<Rightarrow> pydict" where
  "build_gps_data env img =
     (case get_ifd_gps img of
        Inl e \<Rightarrow> []
      | Inr gps_exif \<Rightarrow> fold (\<lambda>(key, v) d. dict_set (tag_name (GPSTAGS env) key) v d) gps_exif [])"

text \<open>\<^verbatim>\<open>strptime\<close> raises \<^verbatim>\<open>TypeError\<close> on anything but a \<^verbatim>\<open>str\<close>.\<close>

definition call_strptime :: "'t env \<Rightarrow> pyval option \<Rightarrow> pyerr + 't" where
  "call_strptime env date_str =
     (case date_str of Some (StrV s) \<Rightarrow> strptime env s DATE_FORMAT | _ \<Rightarrow> Inl TypeError)"

definition exif_get_default :: "pydict \<Rightarrow> pykey \<Rightarrow> pyval \<Rightarrow> pyval" where
  "exif_get_default d k dflt = (case map_of d k of None \<Rightarrow> dflt | Some v \<Rightarrow> v)"

text \<open>Lines 113 to 127: the address, the camera model and the record.\<close>

definition finish_record ::
  "'t env \<Rightarrow> image \<Rightarrow> pydict \<Rightarrow> pydict \<Rightarrow> 't \<Rightarrow> 't photo_info option outcome" where
  "finish_record env img exif_data gps_data dt =
     then_do (get_gps_location gps_data) (\<lambda>coords.
     then_do (case coords of
                Some (lat, lon) \<Rightarrow> get_address_from_coords (geolocator_reverse env) lat lon
              | None \<Rightarrow> ret COORDS_UNAVAILABLE) (\<lambda>addr.
     let model = exif_get_default exif_data (Name ''Model'') (StrV MODEL_UNKNOWN)
     in then_do (say Msg_done) (\<lambda>_.
        then_do (lift (copy img)) (\<lambda>px.
        ret (Some \<lparr>image_copy = px, date_taken = dt,
                   address = addr, camera_model = model\<rparr>)))))"

text \<open>Lines 101 to 111: the capture date.\<close>

definition select_date_str :: "pydict \<Rightarrow> pyval option" where
  "select_date_str exif_data =
     py_or (map_of exif_data (Name ''DateTimeOriginal'')) (map_of exif_data (Name ''DateTime''))"

definition extract_image_info :: "'t env \<Rightarrow> string \<Rightarrow> 't photo_info option outcome" where
  "extract_image_info env image_path =
     then_do (say (Msg_processing (basename env image_path))) (\<lambda>_.
     case image_open env image_path of
       Inl e \<Rightarrow> then_do (say Msg_open_error) (\<lambda>_. ret None)
     | Inr img \<Rightarrow>
         then_do (lift (getexif img)) (\<lambda>exif.
         if exif = [] then then_do (say Msg_no_exif) (\<lambda>_. ret None)
         else
           let exif_data = build_exif_data env exif;
               gps_data = build_gps_data env img;
               date_str = select_date_str exif_data
           in if \<not> truthy_opt date_str then then_do (say Msg_no_date) (\<lambda>_. ret None)
              else case call_strptime env date_str of
                Inl e \<Rightarrow> then_do (say Msg_date_error) (\<lambda>_. ret None)
              | Inr dt \<Rightarrow> finish_record env img exif_data gps_data dt))"

section \<open>The renderer's order and the orchestrator: \<^verbatim>\<open>create_document\<close>, \<^verbatim>\<open>main\<close>\<close>

text \<open>\<^verbatim>\<open>list.sort(key=...)\<close> is a stable ascending sort; \<open>sort_key\<close> is one. The table
  gets one row per record of the sorted list, numbered from 1; the drawing of the cells
  is python-docx's and is left out.\<close>

definition create_document :: "('t::linorder) photo_info list \<Rightarrow> (nat \<times> 't photo_info) list" where
  "create_document photos_info =
     (let sorted_info = sort_key date_taken photos_info
      in zip [1 ..< Suc (length sorted_info)] sorted_info)"

definition SUPPORTED_FORMATS :: "string list" where
  "SUPPORTED_FORMATS = [''.jpg'', ''.jpeg'', ''.JPG'', ''.JPEG'', ''.heic'', ''.HEIF'', ''.heif'']"

text \<open>\<^verbatim>\<open>str.lower\<close> on the letters A to Z; other characters are left as they are (the
  case mapping of text beyond ASCII is not modelled).\<close>

definition ascii_uppercase :: string where
  "ascii_uppercase = ''ABCDEFGHIJKLMNOPQRSTUVWXYZ''"

definition ascii_lowercase :: string where
  "ascii_lowercase = ''abcdefghijklmnopqrstuvwxyz''"

definition lower_char :: "char \<Rightarrow> char" where
  "lower_char c =
     (case map_of (zip ascii_uppercase ascii_lowercase) c of Some l \<Rightarrow> l | None \<Rightarrow> c)"

definition lower :: "string \<Rightarrow> string" where
  "lower s = map lower_char s"

definition endswith :: "string \<Rightarrow> string \<Rightarrow> bool" where
  "endswith s suffix =
     (length suffix \<le> length s \<and> drop (length s - length suffix) s = suffix)"

definition endswith_any :: "string \<Rightarrow> string list \<Rightarrow> bool" where
  "endswith_any s suffixes = list_ex (endswith s) suffixes"

definition is_selected :: "string \<Rightarrow> bool" where
  "is_selected f = endswith_any (lower f) SUPPORTED_FORMATS"

definition select_photos :: "'t env \<Rightarrow> string \<Rightarrow> string list" where
  "select_photos env folder_path =
     map (path_join env folder_path) (filter is_selected (listdir env folder_path))"

fun extract_all :: "'t env \<Rightarrow> string list \<Rightarrow> 't photo_info list \<Rightarrow> 't photo_info list outcome" where
  "extract_all env [] photo_info_list = ret photo_info_list"
| "extract_all env (photo # photos) photo_info_list =
     then_do (extract_image_info env photo) (\<lambda>info.
     extract_all env photos
       (case info of Some i \<Rightarrow> photo_info_list @ [i] | None \<Rightarrow> photo_info_list))"

definition main :: "('t::linorder) env \<Rightarrow> string \<Rightarrow> (nat \<times> 't photo_info) list option outcome" where
  "main env folder_path =
     (if \<not> path_exists env folder_path
      then then_do (say (Msg_folder_not_found folder_path)) (\<lambda>_. ret None)
      else if \<not> path_isdir env folder_path
      then then_do (say (Msg_not_a_folder folder_path)) (\<lambda>_. ret None)
      else
        then_do (say (Msg_searching folder_path)) (\<lambda>_.
        let photos = select_photos env folder_path
        in if photos = [] then then_do (say Msg_no_photos) (\<lambda>_. ret None)
           else
             then_do (say (Msg_found (length photos))) (\<lambda>_.
             then_do (extract_all env photos []) (\<lambda>photo_info_list.
             if photo_info_list = [] then then_do (say Msg_no_data) (\<lambda>_. ret None)
             else
               then_do (say (Msg_processed (length photo_info_list) (length photos))) (\<lambda>_.
               ret (Some (create_document photo_info_list)))))))"

section \<open>Example files\<close>

text \<open>
  A small world to run the program in: a folder \<^verbatim>\<open>photos\<close> of four files, a geocoder
  that times out, and a \<^verbatim>\<open>strptime\<close> that knows one date. Timestamps are numbers here.
  \<^item> \<^verbatim>\<open>a.jpg\<close> has a date and a camera model, no GPS block;
  \<^item> \<^verbatim>\<open>b.JPG\<close> is the same file cut short: its header and EXIF block are whole, so it
    opens and its tags can be read, but its pixel data cannot be loaded, and \<^verbatim>\<open>copy\<close>
    raises \<^verbatim>\<open>OSError\<close>;
  \<^item> \<^verbatim>\<open>c.HEIC\<close> has an empty \<^verbatim>\<open>DateTimeOriginal\<close>, a \<^verbatim>\<open>DateTime\<close> and GPS
    coordinates;
  \<^item> \<^verbatim>\<open>notes.txt\<close> is not an image.
\<close>

definition example_strptime :: "string \<Rightarrow> string \<Rightarrow> pyerr + int" where
  "example_strptime s fmt =
     (if fmt = ''%Y:%m:%d %H:%M:%S'' \<and> s = ''2024:01:02 03:04:05''
      then Inr 20240102030405 else Inl ValueError)"

definition good_jpeg :: image where
  "good_jpeg =
     \<lparr>getexif = Inr [(306, StrV ''2024:01:02 03:04:05''), (272, StrV ''X100'')],
      get_ifd_gps = Inr [],
      copy = Inr [1, 2, 3]\<rparr>"

definition truncated_jpeg :: image where
  "truncated_jpeg =
     \<lparr>getexif = Inr [(306, StrV ''2024:01:02 03:04:05''), (272, StrV ''X100'')],
      get_ifd_gps = Inr [],
      copy = Inl OSError\<rparr>"

definition empty_original_heic :: image where
  "empty_original_heic =
     \<lparr>getexif = Inr [(36867, StrV []), (306, StrV ''2024:01:02 03:04:05'')],
      get_ifd_gps = Inr [(1, StrV ''N''), (2, TupleV [NumV 41, NumV 30, NumV 0]),
                         (3, StrV ''E''), (4, TupleV [NumV 12, NumV 15, NumV 0])],
      copy = Inr [4, 5, 6]\<rparr>"

definition example_env :: "int env" where
  "example_env =
     \<lparr>image_open = (\<lambda>p. if p = ''photos/a.jpg'' then Inr good_jpeg
                         else if p = ''photos/b.JPG'' then Inr truncated_jpeg
                         else if p = ''photos/c.HEIC'' then Inr empty_original_heic
                         else Inl OSError),
      TAGS = (\<lambda>n. if n = 306 then Some ''DateTime''
                   else if n = 272 then Some ''Model''
                   else if n = 36867 then Some ''DateTimeOriginal'' else None),
      GPSTAGS = (\<lambda>n. if n = 1 then Some ''GPSLatitudeRef''
                      else if n = 2 then Some ''GPSLatitude''
                      else if n = 3 then Some ''GPSLongitudeRef''
                      else if n = 4 then Some ''GPSLongitude'' else None),
      decode_utf8_ignore = (\<lambda>b. b),
      strptime = example_strptime,
      geolocator_reverse = (\<lambda>lat lon. Inl GeocoderTimedOut),
      basename = (\<lambda>p. drop 7 p),
      path_exists = (\<lambda>p. p = ''photos''),
      path_isdir = (\<lambda>p. p = ''photos''),
      listdir = (\<lambda>p. [''a.jpg'', ''b.JPG'', ''c.HEIC'', ''notes.txt'']),
      path_join = (\<lambda>d f. d @ ''/'' @ f)\<rparr>"

section \<open>Properties of the GPS normalizer\<close>










lemma get_gps_location_of_body:
  assumes "map_of gps_data (Name ''GPSLatitude'') = Some latv"
    and "map_of gps_data (Name ''GPSLongitude'') = Some lonv"
  shows "get_gps_location gps_data =
     (case gps_body gps_data of
        Inr c \<Rightarrow> ([], Inr (Some c))
      | Inl e \<Rightarrow> ([Printed (Msg_gps_error e)], Inr None))"
proof -
  from assms(1) have "gps_data \<noteq> []" by auto
  with assms show ?thesis
    by (simp add: get_gps_location_def try_except_def then_do_def lift_def ret_def say_def
        split: sum.splits)
qed






text \<open>
  Claim C3. \<open>get_gps_location\<close> never lets an exception out, whatever the mapping. It
  returns \<^verbatim>\<open>None\<close> without printing when the mapping is empty or lacks
  \<^verbatim>\<open>GPSLatitude\<close> or \<^verbatim>\<open>GPSLongitude\<close>, and it prints the warning and returns
  \<^verbatim>\<open>None\<close> when the conversion of either coordinate value raises.
\<close>

theorem get_gps_location_never_raises:
  "\<exists>ev r. get_gps_location gps_data = (ev, Inr r)
     \<and> (gps_data = [] \<or> map_of gps_data (Name ''GPSLatitude'') = None
          \<or> map_of gps_data (Name ''GPSLongitude'') = None \<longrightarrow> ev = [] \<and> r = None)
     \<and> (\<forall>latv lonv e.
           map_of gps_data (Name ''GPSLatitude'') = Some latv
           \<and> map_of gps_data (Name ''GPSLongitude'') = Some lonv
           \<and> (convert_to_degrees latv = Inl e
               \<or> (\<exists>x. convert_to_degrees latv = Inr x) \<and> convert_to_degrees lonv = Inl e)
         \<longrightarrow> ev = [Printed (Msg_gps_error e)] \<and> r = None)"
proof (cases "gps_data = [] \<or> map_of gps_data (Name ''GPSLatitude'') = None
          \<or> map_of gps_data (Name ''GPSLongitude'') = None")
  case True
  then have "get_gps_location gps_data = ([], Inr None)"
    by (simp add: get_gps_location_def ret_def)
  with True show ?thesis by auto
next
  case False
  then obtain latv lonv where k: "map_of gps_data (Name ''GPSLatitude'') = Some latv"
      "map_of gps_data (Name ''GPSLongitude'') = Some lonv"
    by auto
  have b: "gps_body gps_data = Inl e" if "convert_to_degrees latv = Inl e
               \<or> (\<exists>x. convert_to_degrees latv = Inr x) \<and> convert_to_degrees lonv = Inl e" for e
    using that k by (auto simp: gps_body_def subscript_def bind_err_def)
  show ?thesis
    unfolding get_gps_location_of_body [OF k]
    using False k b by (auto split: sum.splits)
qed

theorem get_gps_location_never_raises_witness:
  "get_gps_location
     [(Name ''GPSLatitude'', TupleV [IntV 41, IntV 30, IntV 0]),
      (Name ''GPSLongitude'', TupleV [IntV 12, StrV ''x'', IntV 0])]
     = ([Printed (Msg_gps_error TypeError)], Inr None)
   \<and> get_gps_location [(Name ''GPSLatitude'', TupleV [IntV 41, IntV 30, IntV 0])] = ([], Inr None)"
proof -
  let ?g = "[(Name ''GPSLatitude'', TupleV [IntV 41, IntV 30, IntV 0]),
      (Name ''GPSLongitude'', TupleV [IntV 12, StrV ''x'', IntV 0])]"
  let ?h = "[(Name ''GPSLatitude'', TupleV [IntV 41, IntV 30, IntV 0])]"
  have c1: "convert_to_degrees (TupleV [IntV 41, IntV 30, IntV 0]) = Inr (83 / 2)"
    by (simp add: convert_to_degrees_def unpack3_def truediv_def add_float_def bind_err_def)
  have c2: "convert_to_degrees (TupleV [IntV 12, StrV ''x'', IntV 0]) = Inl TypeError"
    by (simp add: convert_to_degrees_def unpack3_def truediv_def add_float_def bind_err_def)
  have ex: "\<exists>x. convert_to_degrees (TupleV [IntV 41, IntV 30, IntV 0]) = Inr x"
    using c1 by blast
  obtain ev r where a: "get_gps_location ?g = (ev, Inr r)"
    and b: "\<forall>latv lonv e.
           map_of ?g (Name ''GPSLatitude'') = Some latv
           \<and> map_of ?g (Name ''GPSLongitude'') = Some lonv
           \<and> (convert_to_degrees latv = Inl e
               \<or> (\<exists>x. convert_to_degrees latv = Inr x) \<and> convert_to_degrees lonv = Inl e)
         \<longrightarrow> ev = [Printed (Msg_gps_error e)] \<and> r = None"
    using get_gps_location_never_raises [of ?g] by blast
  have "map_of ?g (Name ''GPSLatitude'') = Some (TupleV [IntV 41, IntV 30, IntV 0])
      \<and> map_of ?g (Name ''GPSLongitude'') = Some (TupleV [IntV 12, StrV ''x'', IntV 0])
      \<and> (convert_to_degrees (TupleV [IntV 41, IntV 30, IntV 0]) = Inl TypeError
          \<or> (\<exists>x. convert_to_degrees (TupleV [IntV 41, IntV 30, IntV 0]) = Inr x)
            \<and> convert_to_degrees (TupleV [IntV 12, StrV ''x'', IntV 0]) = Inl TypeError)"
    using ex c2 by simp
  with b have "ev = [Printed (Msg_gps_error TypeError)] \<and> r = None" by blast
  with a have 1: "get_gps_location ?g = ([Printed (Msg_gps_error TypeError)], Inr None)"
    by simp
  from get_gps_location_never_raises [of ?h]
  have 2: "get_gps_location ?h = ([], Inr None)"
    by auto
  from 1 2 show ?thesis by simp
qed

section \<open>Properties of the address resolver\<close>

lemma dec_digits_small: "n < 10 \<Longrightarrow> dec_digits n = [''0123456789'' ! n]"
  by (subst dec_digits.simps) simp

lemma dec_digits_big:
  "\<not> n < 10 \<Longrightarrow> dec_digits n = dec_digits (n div 10) @ [''0123456789'' ! (n mod 10)]"
  by (subst dec_digits.simps) simp










section \<open>Properties of the renderer's order\<close>

lemma map_snd_enumerate: "map snd (zip [1 ..< Suc (length xs)] xs) = xs"
  by (rule map_snd_zip) (simp del: upt_Suc)

lemma map_fst_enumerate: "map fst (zip [1 ..< Suc (length xs)] xs) = [1 ..< Suc (length xs)]"
  by (rule map_fst_zip) (simp del: upt_Suc)

text \<open>
  Claim C8. For every list of records, the rows of the table follow the capture
  timestamps in nondecreasing order, they are the given records (each once, numbered
  from 1), and the records that share a timestamp keep the order they came in: the sort is
  stable, so the order of the rows is a function of the input list alone.
\<close>

theorem create_document_sorted_stable:
  "sorted (map (date_taken \<circ> snd) (create_document photos_info))
   \<and> mset (map snd (create_document photos_info)) = mset photos_info
   \<and> map fst (create_document photos_info) = [1 ..< Suc (length photos_info)]
   \<and> (\<forall>t. filter (\<lambda>info. date_taken info = t) (map snd (create_document photos_info))
          = filter (\<lambda>info. date_taken info = t) photos_info)"
proof -
  have rows: "map snd (create_document photos_info) = sort_key date_taken photos_info"
    unfolding create_document_def Let_def by (rule map_snd_enumerate)
  have "map (date_taken \<circ> snd) (create_document photos_info)
      = map date_taken (map snd (create_document photos_info))"
    by simp
  then have 1: "sorted (map (date_taken \<circ> snd) (create_document photos_info))"
    unfolding rows by (simp only: sorted_sort_key)
  have 2: "mset (map snd (create_document photos_info)) = mset photos_info"
    unfolding rows by simp
  have 3: "map fst (create_document photos_info) = [1 ..< Suc (length photos_info)]"
    unfolding create_document_def Let_def using map_fst_enumerate [of "sort_key date_taken photos_info"]
    by simp
  have 4: "\<forall>t. filter (\<lambda>info. date_taken info = t) (map snd (create_document photos_info))
          = filter (\<lambda>info. date_taken info = t) photos_info"
    unfolding rows by (simp add: sort_key_stable)
  from 1 2 3 4 show ?thesis by blast
qed

theorem create_document_sorted_stable_witness:
  "map snd (create_document
     [\<lparr>image_copy = [1], date_taken = (5::int), address = ''first'', camera_model = StrV ''A''\<rparr>,
      \<lparr>image_copy = [2], date_taken = 3, address = ''second'', camera_model = StrV ''B''\<rparr>,
      \<lparr>image_copy = [3], date_taken = 5, address = ''third'', camera_model = StrV ''C''\<rparr>])
   = [\<lparr>image_copy = [2], date_taken = 3, address = ''second'', camera_model = StrV ''B''\<rparr>,
      \<lparr>image_copy = [1], date_taken = 5, address = ''first'', camera_model = StrV ''A''\<rparr>,
      \<lparr>image_copy = [3], date_taken = 5, address = ''third'', camera_model = StrV ''C''\<rparr>]"
  using create_document_sorted_stable
    [of "[\<lparr>image_copy = [1], date_taken = (5::int), address = ''first'', camera_model = StrV ''A''\<rparr>,
      \<lparr>image_copy = [2], date_taken = 3, address = ''second'', camera_model = StrV ''B''\<rparr>,
      \<lparr>image_copy = [3], date_taken = 5, address = ''third'', camera_model = StrV ''C''\<rparr>]"]
  by (simp add: create_document_def)

section \<open>Properties of the file selection\<close>

lemma lower_append: "lower (s @ t) = lower s @ lower t"
  by (simp add: lower_def)

lemma endswith_append: "endswith (s @ t) t"
  by (simp add: endswith_def)

lemma endswith_iff: "endswith s t \<longleftrightarrow> (\<exists>p. s = p @ t)"
proof
  assume "endswith s t"
  then have "s = take (length s - length t) s @ t"
    unfolding endswith_def by (metis append_take_drop_id)
  then show "\<exists>p. s = p @ t" ..
next
  assume "\<exists>p. s = p @ t"
  then show "endswith s t" by (auto simp: endswith_def)
qed

lemma lower_char_not_upper: "lower_char c \<notin> set ascii_uppercase"
proof (cases "map_of (zip ascii_uppercase ascii_lowercase) c")
  case None
  then have "c \<notin> fst ` set (zip ascii_uppercase ascii_lowercase)"
    by (rule iffD1 [OF map_of_eq_None_iff])
  then have "c \<notin> set (map fst (zip ascii_uppercase ascii_lowercase))"
    by simp
  moreover have "map fst (zip ascii_uppercase ascii_lowercase) = ascii_uppercase"
    by (rule map_fst_zip) (simp add: ascii_uppercase_def ascii_lowercase_def)
  ultimately have "c \<notin> set ascii_uppercase" by simp
  with None show ?thesis by (simp add: lower_char_def)
next
  case (Some l)
  then have "(c, l) \<in> set (zip ascii_uppercase ascii_lowercase)" by (rule map_of_SomeD)
  then have "l \<in> set ascii_lowercase" by (rule set_zip_rightD)
  then have "l \<notin> set ascii_uppercase"
    by (auto simp: ascii_uppercase_def ascii_lowercase_def)
  with Some show ?thesis by (simp add: lower_char_def)
qed

lemma lower_no_upper: "set (lower s) \<inter> set ascii_uppercase = {}"
  using lower_char_not_upper by (auto simp: lower_def)

lemma endswith_lower_upper:
  assumes "c \<in> set t" "c \<in> set ascii_uppercase"
  shows "\<not> endswith (lower s) t"
proof
  assume "endswith (lower s) t"
  then obtain p where "lower s = p @ t" unfolding endswith_iff ..
  with assms(1) have "c \<in> set (lower s)" by simp
  with assms(2) lower_no_upper [of s] show False by auto
qed

lemma lower_literals:
  "lower ''.HEIC'' = ''.heic''" "lower ''.HEIF'' = ''.heif''" "lower ''.Jpg'' = ''.jpg''"
  "lower ''.jpg'' = ''.jpg''" "lower ''.jpeg'' = ''.jpeg''" "lower ''.JPG'' = ''.jpg''"
  "lower ''.JPEG'' = ''.jpeg''" "lower ''.heic'' = ''.heic''" "lower ''.heif'' = ''.heif''"
  by (simp_all add: lower_def lower_char_def ascii_uppercase_def ascii_lowercase_def)

lemma lower_never_ends_upper:
  "\<not> endswith (lower f) ''.JPG''" "\<not> endswith (lower f) ''.JPEG''"
  "\<not> endswith (lower f) ''.HEIF''"
  by (rule endswith_lower_upper [where c = "CHR ''E''"]
           endswith_lower_upper [where c = "CHR ''J''"],
      simp, simp add: ascii_uppercase_def)+

lemma is_selected_iff:
  "is_selected f \<longleftrightarrow>
     endswith (lower f) ''.jpg'' \<or> endswith (lower f) ''.jpeg''
     \<or> endswith (lower f) ''.heic'' \<or> endswith (lower f) ''.heif''"
  using lower_never_ends_upper [of f]
  by (auto simp: is_selected_def endswith_any_def SUPPORTED_FORMATS_def)

lemma is_selected_suffix:
  assumes "lower x \<in> {''.jpg'', ''.jpeg'', ''.heic'', ''.heif''}"
  shows "is_selected (stem @ x)"
proof -
  have "endswith (lower (stem @ x)) (lower x)"
    unfolding lower_append by (rule endswith_append)
  with assms show ?thesis unfolding is_selected_iff by auto
qed




text \<open>
  Claim C10. A file name is selected if and only if its lower-cased form ends with one of
  \<^verbatim>\<open>.jpg\<close>, \<^verbatim>\<open>.jpeg\<close>, \<^verbatim>\<open>.heic\<close>, \<^verbatim>\<open>.heif\<close>. The entries \<^verbatim>\<open>.JPG\<close>, \<^verbatim>\<open>.JPEG\<close>
  and \<^verbatim>\<open>.HEIF\<close> of the tuple never end a lower-cased name, so they never decide a match.
  Names ending in \<^verbatim>\<open>.HEIC\<close> or \<^verbatim>\<open>.Jpg\<close> are selected, and the list of photos is the
  folder's listing filtered by this test.
\<close>

theorem is_selected_iff_lowercased:
  "(is_selected f \<longleftrightarrow>
       endswith (lower f) ''.jpg'' \<or> endswith (lower f) ''.jpeg''
       \<or> endswith (lower f) ''.heic'' \<or> endswith (lower f) ''.heif'')
   \<and> \<not> endswith (lower f) ''.JPG'' \<and> \<not> endswith (lower f) ''.JPEG''
   \<and> \<not> endswith (lower f) ''.HEIF''
   \<and> is_selected (stem @ ''.HEIC'') \<and> is_selected (stem @ ''.Jpg'')
   \<and> select_photos env folder_path
       = map (path_join env folder_path)
           (filter (\<lambda>f. endswith (lower f) ''.jpg'' \<or> endswith (lower f) ''.jpeg''
                        \<or> endswith (lower f) ''.heic'' \<or> endswith (lower f) ''.heif'')
                   (listdir env folder_path))"
proof -
  have 3: "is_selected (stem @ ''.HEIC'')" "is_selected (stem @ ''.Jpg'')"
    by (rule is_selected_suffix, simp add: lower_literals)+
  have 4: "select_photos env folder_path
       = map (path_join env folder_path)
           (filter (\<lambda>f. endswith (lower f) ''.jpg'' \<or> endswith (lower f) ''.jpeg''
                        \<or> endswith (lower f) ''.heic'' \<or> endswith (lower f) ''.heif'')
                   (listdir env folder_path))"
  proof -
    have "is_selected = (\<lambda>f. endswith (lower f) ''.jpg'' \<or> endswith (lower f) ''.jpeg''
                        \<or> endswith (lower f) ''.heic'' \<or> endswith (lower f) ''.heif'')"
      by (rule ext) (rule is_selected_iff)
    then show ?thesis unfolding select_photos_def by (rule arg_cong)
  qed
  from is_selected_iff [of f] lower_never_ends_upper [of f] 3 4 show ?thesis by blast
qed

theorem is_selected_iff_lowercased_witness:
  "select_photos example_env ''photos'' = [''photos/a.jpg'', ''photos/b.JPG'', ''photos/c.HEIC'']
   \<and> is_selected ''IMG.HEIC'' \<and> is_selected ''IMG.Jpg''"
proof -
  have 1: "select_photos example_env ''photos''
      = [''photos/a.jpg'', ''photos/b.JPG'', ''photos/c.HEIC'']"
    using is_selected_iff_lowercased [of "''x''" "''x''" example_env "''photos''"]
    by (simp add: example_env_def endswith_def lower_def lower_char_def
        ascii_uppercase_def ascii_lowercase_def)
  from is_selected_iff_lowercased [of "''x''" "''IMG''" example_env "''photos''"]
  have 2: "is_selected (''IMG'' @ ''.HEIC'')" "is_selected (''IMG'' @ ''.Jpg'')" by blast+
  from 1 2 show ?thesis by simp
qed

section \<open>Properties of the record builder\<close>

lemma get_gps_location_total:
  "\<exists>ev c. get_gps_location gps_data = (ev, Inr c) \<and> (\<forall>lat lon. Reverse_geocoded lat lon \<notin> set ev)"
  by (cases "gps_body gps_data")
     (simp_all add: get_gps_location_def try_except_def then_do_def lift_def ret_def say_def)

lemma get_address_from_coords_total:
  "\<exists>s. get_address_from_coords geo lat lon = ([Reverse_geocoded lat lon], Inr s)"
  by (cases "geo lat lon"; cases "get_attr_address (projr (geo lat lon))")
     (simp_all add: get_address_from_coords_def try_except_def then_do_def lift_def ret_def)

lemma finish_record_result:
  assumes "get_gps_location gps_data = (ev1, Inr coords)"
  shows "\<exists>ev2 addr.
     finish_record env img exif_data gps_data dt
       = (ev1 @ ev2 @ [Printed Msg_done],
          case copy img of
            Inl e \<Rightarrow> Inl e
          | Inr px \<Rightarrow> Inr (Some \<lparr>image_copy = px, date_taken = dt, address = addr,
                 camera_model = exif_get_default exif_data (Name ''Model'') (StrV MODEL_UNKNOWN)\<rparr>))
     \<and> (case coords of
          None \<Rightarrow> ev2 = [] \<and> addr = COORDS_UNAVAILABLE
        | Some (lat, lon) \<Rightarrow>
            get_address_from_coords (geolocator_reverse env) lat lon = (ev2, Inr addr))"
proof (cases coords)
  case None
  with assms show ?thesis
    by (cases "copy img")
       (simp_all add: finish_record_def then_do_def ret_def say_def lift_def Let_def)
next
  case (Some c)
  obtain lat lon where c: "c = (lat, lon)" by (cases c)
  obtain s where s: "get_address_from_coords (geolocator_reverse env) lat lon
      = ([Reverse_geocoded lat lon], Inr s)"
    using get_address_from_coords_total by blast
  with assms Some c show ?thesis
    by (cases "copy img")
       (simp_all add: finish_record_def then_do_def ret_def say_def lift_def Let_def)
qed

lemma extract_image_info_open_error:
  assumes "image_open env p = Inl e"
  shows "extract_image_info env p
     = ([Printed (Msg_processing (basename env p)), Printed Msg_open_error], Inr None)"
  using assms by (simp add: extract_image_info_def then_do_def say_def ret_def)

lemma extract_image_info_getexif_error:
  assumes "image_open env p = Inr img" "getexif img = Inl e"
  shows "extract_image_info env p = ([Printed (Msg_processing (basename env p))], Inl e)"
  using assms by (simp add: extract_image_info_def then_do_def say_def ret_def lift_def)

lemma extract_image_info_no_exif:
  assumes "image_open env p = Inr img" "getexif img = Inr []"
  shows "extract_image_info env p
     = ([Printed (Msg_processing (basename env p)), Printed Msg_no_exif], Inr None)"
  using assms by (simp add: extract_image_info_def then_do_def say_def ret_def lift_def)

lemma extract_image_info_no_date:
  assumes "image_open env p = Inr img" "getexif img = Inr exif" "exif \<noteq> []"
    and "\<not> truthy_opt (select_date_str (build_exif_data env exif))"
  shows "extract_image_info env p
     = ([Printed (Msg_processing (basename env p)), Printed Msg_no_date], Inr None)"
  using assms by (simp add: extract_image_info_def then_do_def say_def ret_def lift_def Let_def)

lemma extract_image_info_date_error:
  assumes "image_open env p = Inr img" "getexif img = Inr exif" "exif \<noteq> []"
    and "truthy_opt (select_date_str (build_exif_data env exif))"
    and "call_strptime env (select_date_str (build_exif_data env exif)) = Inl e"
  shows "extract_image_info env p
     = ([Printed (Msg_processing (basename env p)), Printed Msg_date_error], Inr None)"
  using assms by (simp add: extract_image_info_def then_do_def say_def ret_def lift_def Let_def)

lemma extract_image_info_dated:
  assumes "image_open env p = Inr img" "getexif img = Inr exif" "exif \<noteq> []"
    and "truthy_opt (select_date_str (build_exif_data env exif))"
    and "call_strptime env (select_date_str (build_exif_data env exif)) = Inr dt"
    and "finish_record env img (build_exif_data env exif) (build_gps_data env img) dt = (ev, r)"
  shows "extract_image_info env p = (Printed (Msg_processing (basename env p)) # ev, r)"
  using assms by (simp add: extract_image_info_def then_do_def say_def ret_def lift_def Let_def)

text \<open>What the function returns when the image methods outside any handler do not raise.\<close>

lemma extract_image_info_None_iff:
  assumes "\<And>img. image_open env p = Inr img \<Longrightarrow>
             (\<exists>exif. getexif img = Inr exif) \<and> (\<exists>px. copy img = Inr px)"
  shows "\<exists>ev r. extract_image_info env p = (ev, Inr r)
     \<and> (r = None \<longleftrightarrow>
          (\<exists>e. image_open env p = Inl e)
          \<or> (\<exists>img. image_open env p = Inr img \<and> getexif img = Inr [])
          \<or> (\<exists>img exif. image_open env p = Inr img \<and> getexif img = Inr exif
                \<and> (\<not> truthy_opt (select_date_str (build_exif_data env exif))
                    \<or> (\<exists>e. call_strptime env (select_date_str (build_exif_data env exif)) = Inl e))))"
proof (cases "image_open env p")
  case (Inl e)
  then show ?thesis using extract_image_info_open_error [OF Inl] by simp
next
  case (Inr img)
  from assms [OF Inr] obtain exif px where g: "getexif img = Inr exif" and c: "copy img = Inr px"
    by blast
  let ?d = "select_date_str (build_exif_data env exif)"
  consider (empty) "exif = []"
    | (nodate) "exif \<noteq> []" "\<not> truthy_opt ?d"
    | (bad) e where "exif \<noteq> []" "truthy_opt ?d" "call_strptime env ?d = Inl e"
    | (ok) dt where "exif \<noteq> []" "truthy_opt ?d" "call_strptime env ?d = Inr dt"
    by (cases "call_strptime env ?d") auto
  then show ?thesis
  proof cases
    case empty
    with Inr g show ?thesis using extract_image_info_no_exif [OF Inr] by simp
  next
    case nodate
    with Inr g show ?thesis using extract_image_info_no_date [OF Inr g] by auto
  next
    case bad
    with Inr g show ?thesis using extract_image_info_date_error [OF Inr g] by auto
  next
    case ok
    obtain ev1 coords where l: "get_gps_location (build_gps_data env img) = (ev1, Inr coords)"
      using get_gps_location_total by blast
    from finish_record_result [OF l, of env img "build_exif_data env exif" dt] c
    obtain ev r where f: "finish_record env img (build_exif_data env exif) (build_gps_data env img) dt
        = (ev, Inr (Some r))"
      by auto
    from extract_image_info_dated [OF Inr g ok f] Inr g ok show ?thesis by auto
  qed
qed

lemma extract_image_info_SomeD:
  assumes "extract_image_info env p = (ev, Inr (Some r))"
  obtains img exif dt ev' where
    "image_open env p = Inr img" "getexif img = Inr exif" "exif \<noteq> []"
    "truthy_opt (select_date_str (build_exif_data env exif))"
    "call_strptime env (select_date_str (build_exif_data env exif)) = Inr dt"
    "finish_record env img (build_exif_data env exif) (build_gps_data env img) dt
       = (ev', Inr (Some r))"
    "ev = Printed (Msg_processing (basename env p)) # ev'"
proof (cases "image_open env p")
  case (Inl e)
  with assms show ?thesis using extract_image_info_open_error [OF Inl] by simp
next
  case (Inr img)
  show ?thesis
  proof (cases "getexif img")
    case (Inl e)
    with assms show ?thesis using extract_image_info_getexif_error [OF Inr Inl] by simp
  next
    case g: (Inr exif)
    let ?d = "select_date_str (build_exif_data env exif)"
    consider (empty) "exif = []"
      | (nodate) "exif \<noteq> []" "\<not> truthy_opt ?d"
      | (bad) e where "exif \<noteq> []" "truthy_opt ?d" "call_strptime env ?d = Inl e"
      | (ok) dt where "exif \<noteq> []" "truthy_opt ?d" "call_strptime env ?d = Inr dt"
      by (cases "call_strptime env ?d") auto
    then show ?thesis
    proof cases
      case empty
      with assms g show ?thesis using extract_image_info_no_exif [OF Inr] by simp
    next
      case nodate
      with assms show ?thesis using extract_image_info_no_date [OF Inr g] by simp
    next
      case bad
      with assms show ?thesis using extract_image_info_date_error [OF Inr g] by simp
    next
      case ok
      obtain ev' r' where f: "finish_record env img (build_exif_data env exif)
          (build_gps_data env img) dt = (ev', r')"
        by (cases "finish_record env img (build_exif_data env exif) (build_gps_data env img) dt")
      from extract_image_info_dated [OF Inr g ok f] assms
      have "ev = Printed (Msg_processing (basename env p)) # ev'" "r' = Inr (Some r)" by simp_all
      with f Inr g ok that show ?thesis by blast
    qed
  qed
qed



lemmas run_defs =
  extract_image_info_def finish_record_def then_do_def try_except_def say_def ret_def lift_def
  select_date_str_def py_or_def truthy_opt_def call_strptime_def DATE_FORMAT_def
  build_exif_data_def build_gps_data_def tag_name_def decode_bytes_def exif_get_default_def
  get_gps_location_def gps_body_def subscript_def bind_err_def convert_to_degrees_def
  unpack3_def truediv_def add_float_def py_round_def round_half_even_def
  get_address_from_coords_def get_attr_address_def format_6f_def zfill_def
  dec_digits_small dec_digits_big
  example_env_def example_strptime_def good_jpeg_def truncated_jpeg_def empty_original_heic_def

lemma example_a:
  "extract_image_info example_env ''photos/a.jpg''
     = ([Printed (Msg_processing ''a.jpg''), Printed Msg_done],
        Inr (Some \<lparr>image_copy = [1, 2, 3], date_taken = 20240102030405,
                   address = COORDS_UNAVAILABLE, camera_model = StrV ''X100''\<rparr>))"
  by (simp add: run_defs)

lemma example_b:
  "extract_image_info example_env ''photos/b.JPG''
     = ([Printed (Msg_processing ''b.JPG''), Printed Msg_done], Inl OSError)"
  by (simp add: run_defs)

lemma example_c:
  "extract_image_info example_env ''photos/c.HEIC''
     = ([Printed (Msg_processing ''c.HEIC''), Reverse_geocoded (83 / 2) (49 / 4),
         Printed Msg_done],
        Inr (Some \<lparr>image_copy = [4, 5, 6], date_taken = 20240102030405,
                   address = ''41.500000, 12.250000'',
                   camera_model = StrV MODEL_UNKNOWN\<rparr>))"
  by (simp add: run_defs)

lemma example_main:
  "main example_env ''photos''
     = ([Printed (Msg_searching ''photos''), Printed (Msg_found 3),
         Printed (Msg_processing ''a.jpg''), Printed Msg_done,
         Printed (Msg_processing ''b.JPG''), Printed Msg_done],
        Inl OSError)"
proof -
  have sel: "select_photos example_env ''photos''
      = [''photos/a.jpg'', ''photos/b.JPG'', ''photos/c.HEIC'']"
    by (simp add: select_photos_def is_selected_iff example_env_def endswith_def lower_def
        lower_char_def ascii_uppercase_def ascii_lowercase_def)
  have ex: "path_exists example_env ''photos''" "path_isdir example_env ''photos''"
    by (simp_all add: example_env_def)
  show ?thesis
    unfolding main_def sel Let_def
    by (simp add: ex example_a example_b then_do_def say_def ret_def)
qed

text \<open>
  Claim C5 has \<open>extract_image_info\<close> return \<^verbatim>\<open>None\<close> or a record for every file, so
  that no failure of one file reaches the batch. \<open>extract_image_info_None_iff\<close> above
  gives the three cases of \<^verbatim>\<open>None\<close> for the files on which \<^verbatim>\<open>getexif\<close> and \<^verbatim>\<open>copy\<close> do
  not raise. On the file cut short the call of \<^verbatim>\<open>copy\<close> in line 123, which no handler
  encloses, raises \<^verbatim>\<open>OSError\<close>: the exception leaves \<open>extract_image_info\<close>, passes
  through the loop of \<open>main\<close>, and the run ends without a document although \<^verbatim>\<open>a.jpg\<close> and
  \<^verbatim>\<open>c.HEIC\<close> are good.
\<close>

theorem extract_image_info_copy_error_escapes:
  "image_open example_env ''photos/b.JPG'' = Inr truncated_jpeg
   \<and> getexif truncated_jpeg = Inr [(306, StrV ''2024:01:02 03:04:05''), (272, StrV ''X100'')]
   \<and> copy truncated_jpeg = Inl OSError
   \<and> extract_image_info example_env ''photos/b.JPG''
       = ([Printed (Msg_processing ''b.JPG''), Printed Msg_done], Inl OSError)
   \<and> main example_env ''photos''
       = ([Printed (Msg_searching ''photos''), Printed (Msg_found 3),
           Printed (Msg_processing ''a.jpg''), Printed Msg_done,
           Printed (Msg_processing ''b.JPG''), Printed Msg_done],
          Inl OSError)"
  by (simp add: example_b example_main) (simp add: example_env_def truncated_jpeg_def)




text \<open>
  Claim C9. Whenever \<open>extract_image_info\<close> returns a record: if the GPS normalizer
  returns \<^verbatim>\<open>None\<close> for the image's GPS block, the record's address is the text
  "coordinates unavailable" of line 115 and the geocoder is not called; and if the tags
  hold no \<^verbatim>\<open>Model\<close>, the record's camera model is the text "model unknown" of line 118.
\<close>

theorem extract_image_info_sentinels:
  assumes "extract_image_info env p = (ev, Inr (Some r))"
  shows "\<exists>img exif. image_open env p = Inr img \<and> getexif img = Inr exif
     \<and> (snd (get_gps_location (build_gps_data env img)) = Inr None
          \<longrightarrow> address r = COORDS_UNAVAILABLE \<and> (\<forall>lat lon. Reverse_geocoded lat lon \<notin> set ev))
     \<and> (map_of (build_exif_data env exif) (Name ''Model'') = None
          \<longrightarrow> camera_model r = StrV MODEL_UNKNOWN)"
proof -
  from assms obtain img exif dt ev' where
    o: "image_open env p = Inr img" "getexif img = Inr exif"
    and f: "finish_record env img (build_exif_data env exif) (build_gps_data env img) dt
        = (ev', Inr (Some r))"
    and e: "ev = Printed (Msg_processing (basename env p)) # ev'"
    by (rule extract_image_info_SomeD)
  obtain ev1 coords where l: "get_gps_location (build_gps_data env img) = (ev1, Inr coords)"
    and n: "\<forall>lat lon. Reverse_geocoded lat lon \<notin> set ev1"
    using get_gps_location_total by blast
  from finish_record_result [OF l, of env img "build_exif_data env exif" dt] f
  obtain ev2 addr px where
    r: "r = \<lparr>image_copy = px, date_taken = dt, address = addr,
          camera_model = exif_get_default (build_exif_data env exif) (Name ''Model'')
                           (StrV MODEL_UNKNOWN)\<rparr>"
    and ev': "ev' = ev1 @ ev2 @ [Printed Msg_done]"
    and c: "case coords of
          None \<Rightarrow> ev2 = [] \<and> addr = COORDS_UNAVAILABLE
        | Some (lat, lon) \<Rightarrow>
            get_address_from_coords (geolocator_reverse env) lat lon = (ev2, Inr addr)"
    by (cases "copy img") auto
  have 1: "address r = COORDS_UNAVAILABLE \<and> (\<forall>lat lon. Reverse_geocoded lat lon \<notin> set ev)"
    if "snd (get_gps_location (build_gps_data env img)) = Inr None"
  proof -
    from that l have "coords = None" by simp
    with c have "ev2 = []" "addr = COORDS_UNAVAILABLE" by simp_all
    with r e ev' n show ?thesis by simp
  qed
  have 2: "camera_model r = StrV MODEL_UNKNOWN"
    if "map_of (build_exif_data env exif) (Name ''Model'') = None"
    using that r by (simp add: exif_get_default_def)
  show ?thesis
  proof (intro exI conjI impI)
    show "image_open env p = Inr img" "getexif img = Inr exif" by (rule o)+
  qed (use 1 2 in simp_all)
qed

theorem extract_image_info_sentinels_witness:
  "address (the (projr (snd (extract_image_info example_env ''photos/a.jpg''))))
     = COORDS_UNAVAILABLE
   \<and> camera_model (the (projr (snd (extract_image_info example_env ''photos/c.HEIC''))))
     = StrV MODEL_UNKNOWN"
proof -
  have g: "snd (get_gps_location (build_gps_data example_env good_jpeg)) = Inr None"
    by (simp add: build_gps_data_def good_jpeg_def get_gps_location_def ret_def)
  have m: "map_of (build_exif_data example_env
       [(36867, StrV []), (306, StrV ''2024:01:02 03:04:05'')]) (Name ''Model'') = None"
    by (simp add: build_exif_data_def tag_name_def decode_bytes_def example_env_def)
  have oa: "image_open example_env ''photos/a.jpg'' = Inr good_jpeg"
    and oc: "image_open example_env ''photos/c.HEIC'' = Inr empty_original_heic"
    and gc: "getexif empty_original_heic
        = Inr [(36867, StrV []), (306, StrV ''2024:01:02 03:04:05'')]"
    by (simp_all add: example_env_def empty_original_heic_def)
  from extract_image_info_sentinels [OF example_a] oa g
  have a: "address \<lparr>image_copy = [1, 2, 3], date_taken = 20240102030405,
                   address = COORDS_UNAVAILABLE, camera_model = StrV ''X100''\<rparr>
      = COORDS_UNAVAILABLE"
    by auto
  from extract_image_info_sentinels [OF example_c] oc gc m
  have c: "camera_model \<lparr>image_copy = [4, 5, 6], date_taken = 20240102030405,
                   address = ''41.500000, 12.250000'',
                   camera_model = StrV MODEL_UNKNOWN\<rparr> = StrV MODEL_UNKNOWN"
    by auto
  from a c show ?thesis by (simp add: example_a example_c)
qed

end
